theory Spec2Isabelle
  imports Main "HOL-Library.AList"
begin

section \<open>Promises and abort signals\<close>

text \<open>
  The asynchronous utilities of \<^verbatim>\<open>coreUtils/async.ts\<close> and the keyed observer of
  \<^verbatim>\<open>coreUtils/keyedObserver.ts\<close>. A promise is its settlement state; resolving or
  rejecting a promise that is already settled does nothing. An \<^verbatim>\<open>AbortSignal\<close> is its
  \<^verbatim>\<open>aborted\<close> flag, its \<^verbatim>\<open>reason\<close> and the list of registered \<^verbatim>\<open>'abort'\<close> listeners, in
  registration order. A listener is the identity of a callback.
\<close>

datatype error = AbortError | Error string

datatype 'a promise = Pending | Fulfilled 'a | Rejected error

definition resolve :: "'a \<Rightarrow> 'a promise \<Rightarrow> 'a promise" where
  "resolve v p = (case p of Pending \<Rightarrow> Fulfilled v | _ \<Rightarrow> p)"

definition reject :: "error \<Rightarrow> 'a promise \<Rightarrow> 'a promise" where
  "reject e p = (case p of Pending \<Rightarrow> Rejected e | _ \<Rightarrow> p)"

text \<open>
  \<^verbatim>\<open>promise.then(onFulfilled, onRejected)\<close>: the handler that matches the settlement
  runs and its own outcome settles the derived promise; a pending promise leaves the
  derived promise pending.
\<close>

definition then2 :: "('a \<Rightarrow> 'b promise) \<Rightarrow> (error \<Rightarrow> 'b promise) \<Rightarrow> 'a promise \<Rightarrow> 'b promise" where
  "then2 onFulfilled onRejected p =
     (case p of Pending \<Rightarrow> Pending | Fulfilled v \<Rightarrow> onFulfilled v | Rejected e \<Rightarrow> onRejected e)"

type_synonym listener = nat

type_synonym ref = nat

record AbortSignal =
  aborted :: bool
  reason :: error
  listeners :: "listener list"

text \<open>\<^verbatim>\<open>signal.throwIfAborted()\<close> throws the reason of an aborted signal.\<close>

definition throwIfAborted :: "AbortSignal \<Rightarrow> error + unit" where
  "throwIfAborted s = (if aborted s then Inl (reason s) else Inr ())"

text \<open>
  \<^verbatim>\<open>addEventListener('abort', l)\<close> appends the callback unless the same callback is
  registered already; \<^verbatim>\<open>removeEventListener('abort', l)\<close> removes it. Registering on
  a signal that is aborted already stores the callback, and no event is dispatched to it.
\<close>

definition addEventListener :: "listener \<Rightarrow> AbortSignal \<Rightarrow> AbortSignal" where
  "addEventListener l s =
     (if l \<in> set (listeners s) then s else s\<lparr>listeners := listeners s @ [l]\<rparr>)"

definition removeEventListener :: "listener \<Rightarrow> AbortSignal \<Rightarrow> AbortSignal" where
  "removeEventListener l s = s\<lparr>listeners := removeAll l (listeners s)\<rparr>"

text \<open>A new closure is a callback distinct from every callback registered so far.\<close>

definition newListener :: "listener list \<Rightarrow> listener" where
  "newListener ls = Suc (fold max ls 0)"

subsection \<open>mapAbortedToNull\<close>

text \<open>
  The second argument is the signal as the handlers find it when the promise settles:
  \<open>None\<close> is \<^verbatim>\<open>undefined\<close>. The value \<^verbatim>\<open>null\<close> of the result is \<open>None\<close>.
\<close>

definition onResolve :: "AbortSignal option \<Rightarrow> 'a \<Rightarrow> 'a option promise" where
  "onResolve signal v =
     (case signal of
        Some s \<Rightarrow> if aborted s then Fulfilled None else Fulfilled (Some v)
      | None \<Rightarrow> Fulfilled (Some v))"

definition onReject :: "AbortSignal option \<Rightarrow> error \<Rightarrow> 'a option promise" where
  "onReject signal err =
     (case signal of
        Some s \<Rightarrow> if aborted s then Fulfilled None else Rejected err
      | None \<Rightarrow> Rejected err)"

definition mapAbortedToNull :: "'a promise \<Rightarrow> AbortSignal option \<Rightarrow> 'a option promise" where
  "mapAbortedToNull p signal = then2 (onResolve signal) (onReject signal) p"

subsection \<open>AbortScope\<close>

text \<open>
  Signals that exist outside the object under study (a parent signal, the signal a
  caller passes in) live in a store and are named by reference, since the code reaches
  them through an alias and mutates their listener list.
\<close>

type_synonym store = "ref \<Rightarrow> AbortSignal"

text \<open>The store in which every reference holds the signal \<open>s\<close>.\<close>

definition store_of :: "AbortSignal \<Rightarrow> store" where
  "store_of s = (\<lambda>r. s)"

text \<open>\<^verbatim>\<open>new AbortController()\<close>: its signal is not aborted and has no listener.\<close>

definition newAbortController :: AbortSignal where
  "newAbortController = \<lparr>aborted = False, reason = AbortError, listeners = []\<rparr>"

text \<open>
  \<^verbatim>\<open>controller.abort()\<close>: nothing on a signal that is aborted already; otherwise the
  signal becomes aborted with the default reason and the \<^verbatim>\<open>'abort'\<close> event is
  dispatched to the registered listeners, which are returned in dispatch order.
\<close>

definition AbortController_abort :: "AbortSignal \<Rightarrow> AbortSignal \<times> listener list" where
  "AbortController_abort s =
     (if aborted s then (s, []) else (s\<lparr>aborted := True, reason := AbortError\<rparr>, listeners s))"

record AbortScope =
  controller :: AbortSignal
  parentSignal :: "ref option"
  onAbort :: "listener option"

text \<open>
  The constructor. With a parent signal it stores \<^verbatim>\<open>undefined\<close> in the field
  \<^verbatim>\<open>parentSignal\<close>, creates the closure \<^verbatim>\<open>onAbort\<close> and registers it on the parent.
  It never reads \<^verbatim>\<open>parentSignal.aborted\<close>.
\<close>

definition AbortScope_new :: "ref option \<Rightarrow> store \<Rightarrow> AbortScope \<times> store" where
  "AbortScope_new parent st =
     (case parent of
        None \<Rightarrow> (\<lparr>controller = newAbortController, parentSignal = None, onAbort = None\<rparr>, st)
      | Some p \<Rightarrow>
          (let l = newListener (listeners (st p))
           in (\<lparr>controller = newAbortController, parentSignal = None, onAbort = Some l\<rparr>,
               st(p := addEventListener l (st p)))))"

definition signal :: "AbortScope \<Rightarrow> AbortSignal" where
  "signal sc = controller sc"

text \<open>The closure \<^verbatim>\<open>onAbort\<close>, run when the parent dispatches its \<^verbatim>\<open>'abort'\<close> event.\<close>

definition AbortScope_onAbort :: "AbortScope \<Rightarrow> AbortScope \<times> listener list" where
  "AbortScope_onAbort sc =
     (let (c, notified) = AbortController_abort (controller sc)
      in (sc\<lparr>controller := c\<rparr>, notified))"

text \<open>
  \<^verbatim>\<open>[Symbol.dispose]()\<close> aborts the own controller, then removes \<^verbatim>\<open>onAbort\<close> from the
  signal that the field \<^verbatim>\<open>parentSignal\<close> holds, when both are defined. The third
  component lists the listeners of the scope's own signal that were notified.
\<close>

definition AbortScope_dispose :: "AbortScope \<Rightarrow> store \<Rightarrow> AbortScope \<times> store \<times> listener list" where
  "AbortScope_dispose sc st =
     (let (c, notified) = AbortController_abort (controller sc);
          st' = (case parentSignal sc of
                   Some p \<Rightarrow>
                     (case onAbort sc of
                        Some l \<Rightarrow> st(p := removeEventListener l (st p))
                      | None \<Rightarrow> st)
                 | None \<Rightarrow> st)
      in (sc\<lparr>controller := c\<rparr>, st', notified))"

definition AbortScope_abort :: "AbortScope \<Rightarrow> store \<Rightarrow> AbortScope \<times> store \<times> listener list" where
  "AbortScope_abort sc st = AbortScope_dispose sc st"

subsection \<open>delay\<close>

text \<open>
  The world of a \<^verbatim>\<open>delay\<close> call: the signals and the pending timers, each with its
  identifier and its timeout. \<^verbatim>\<open>setTimeout\<close> adds a pending timer, \<^verbatim>\<open>clearTimeout\<close>
  removes it.
\<close>

record world =
  signals :: store
  timers :: "(nat \<times> nat) list"

definition setTimeout :: "nat \<Rightarrow> world \<Rightarrow> nat \<times> world" where
  "setTimeout ms w =
     (let timeoutId = Suc (fold max (map fst (timers w)) 0)
      in (timeoutId, w\<lparr>timers := timers w @ [(timeoutId, ms)]\<rparr>))"

definition clearTimeout :: "nat \<Rightarrow> world \<Rightarrow> world" where
  "clearTimeout timeoutId w = w\<lparr>timers := filter (\<lambda>t. fst t \<noteq> timeoutId) (timers w)\<rparr>"

record delay_call =
  d_promise :: "unit promise"
  d_timeoutId :: nat
  d_signal :: "ref option"
  d_onAbort :: "listener option"

text \<open>
  The executor of the promise in \<^verbatim>\<open>delay\<close>: the timer is set first; then, with a signal,
  an aborted signal rejects the promise, and in every case the closure \<^verbatim>\<open>onAbort\<close> is
  created and registered.
\<close>

definition delay :: "nat \<Rightarrow> ref option \<Rightarrow> world \<Rightarrow> delay_call \<times> world" where
  "delay timeout sig w =
     (let (timeoutId, w1) = setTimeout timeout w
      in case sig of
           None \<Rightarrow>
             (\<lparr>d_promise = Pending, d_timeoutId = timeoutId, d_signal = None, d_onAbort = None\<rparr>, w1)
         | Some r \<Rightarrow>
             (let s = signals w1 r;
                  p = (if aborted s
                       then (case throwIfAborted s of
                               Inl err \<Rightarrow> reject err Pending
                             | Inr _ \<Rightarrow> Pending)
                       else Pending);
                  l = newListener (listeners s)
              in (\<lparr>d_promise = p, d_timeoutId = timeoutId, d_signal = Some r, d_onAbort = Some l\<rparr>,
                  w1\<lparr>signals := (signals w1)(r := addEventListener l s)\<rparr>)))"

text \<open>The timer's callback: the timer has fired, so it is no longer pending.\<close>

definition delay_onTimeout :: "delay_call \<Rightarrow> world \<Rightarrow> delay_call \<times> world" where
  "delay_onTimeout d w =
     (let w1 = clearTimeout (d_timeoutId d) w;
          w2 = (case d_signal d of
                  Some r \<Rightarrow>
                    (case d_onAbort d of
                       Some l \<Rightarrow> w1\<lparr>signals := (signals w1)(r := removeEventListener l (signals w1 r))\<rparr>
                     | None \<Rightarrow> w1)
                | None \<Rightarrow> w1)
      in (d\<lparr>d_promise := resolve () (d_promise d)\<rparr>, w2))"

text \<open>The closure \<^verbatim>\<open>onAbort\<close> of \<^verbatim>\<open>delay\<close>, run when the signal dispatches \<^verbatim>\<open>'abort'\<close>.\<close>

definition delay_onAbort :: "delay_call \<Rightarrow> world \<Rightarrow> delay_call \<times> world" where
  "delay_onAbort d w =
     (case d_signal d of
        None \<Rightarrow> (d, w)
      | Some r \<Rightarrow>
          (let w1 = clearTimeout (d_timeoutId d) w;
               w2 = (case d_onAbort d of
                       Some l \<Rightarrow> w1\<lparr>signals := (signals w1)(r := removeEventListener l (signals w1 r))\<rparr>
                     | None \<Rightarrow> w1);
               p = (case throwIfAborted (signals w2 r) of
                      Inl err \<Rightarrow> reject err (d_promise d)
                    | Inr _ \<Rightarrow> d_promise d)
           in (d\<lparr>d_promise := p\<rparr>, w2)))"

subsection \<open>raceAbortSignal\<close>

text \<open>
  A call with a defined signal: \<^verbatim>\<open>cleanup\<close> is the closure that removes the listener
  \<^verbatim>\<open>onAbort\<close> and then clears itself, so the field holds the listener it would remove.
  \<open>r_abortPromise\<close> is \<^verbatim>\<open>abortPromise\<close>, \<open>r_raced\<close> is \<^verbatim>\<open>Promise.race([promise, abortPromise])\<close>
  and \<open>r_result\<close> is the promise returned, \<^verbatim>\<open>.then(result => { cleanup?.(); return result; })\<close>.
\<close>

record 'a race_call =
  r_signal :: ref
  r_cleanup :: "listener option"
  r_abortPromise :: "'a promise"
  r_raced :: "'a promise"
  r_result :: "'a promise"

text \<open>With an undefined signal the given promise itself is returned: no call state.\<close>

definition raceAbortSignal :: "ref option \<Rightarrow> store \<Rightarrow> 'a race_call option \<times> store" where
  "raceAbortSignal sig st =
     (case sig of
        None \<Rightarrow> (None, st)
      | Some r \<Rightarrow>
          (let l = newListener (listeners (st r))
           in (Some \<lparr>r_signal = r, r_cleanup = Some l, r_abortPromise = Pending,
                     r_raced = Pending, r_result = Pending\<rparr>,
               st(r := addEventListener l (st r)))))"

definition race_cleanup :: "'a race_call \<Rightarrow> store \<Rightarrow> 'a race_call \<times> store" where
  "race_cleanup rc st =
     (case r_cleanup rc of
        None \<Rightarrow> (rc, st)
      | Some l \<Rightarrow>
          (rc\<lparr>r_cleanup := None\<rparr>, st((r_signal rc) := removeEventListener l (st (r_signal rc)))))"

text \<open>
  A member of the race settles with outcome \<open>out\<close>. The race takes the first settlement
  only. The handler given to \<^verbatim>\<open>then\<close> is a fulfilment handler: it runs \<^verbatim>\<open>cleanup\<close> when
  the race is fulfilled, and a rejection of the race passes to the result without it.
\<close>

definition race_settle :: "'a promise \<Rightarrow> 'a race_call \<Rightarrow> store \<Rightarrow> 'a race_call \<times> store" where
  "race_settle out rc st =
     (if r_raced rc \<noteq> Pending then (rc, st)
      else case out of
             Pending \<Rightarrow> (rc, st)
           | Fulfilled v \<Rightarrow>
               (let (rc1, st1) = race_cleanup (rc\<lparr>r_raced := Fulfilled v\<rparr>) st
                in (rc1\<lparr>r_result := Fulfilled v\<rparr>, st1))
           | Rejected e \<Rightarrow> (rc\<lparr>r_raced := Rejected e, r_result := Rejected e\<rparr>, st))"

text \<open>The given promise settles.\<close>

definition race_onPromise :: "'a promise \<Rightarrow> 'a race_call \<Rightarrow> store \<Rightarrow> 'a race_call \<times> store" where
  "race_onPromise out rc st = race_settle out rc st"

text \<open>The closure \<^verbatim>\<open>onAbort\<close> of \<^verbatim>\<open>raceAbortSignal\<close>, run when the signal dispatches \<^verbatim>\<open>'abort'\<close>.\<close>

definition race_onAbort :: "'a race_call \<Rightarrow> store \<Rightarrow> 'a race_call \<times> store" where
  "race_onAbort rc st =
     (let (rc1, st1) = race_cleanup rc st;
          ap = (case throwIfAborted (st1 (r_signal rc1)) of
                  Inl err \<Rightarrow> reject err (r_abortPromise rc1)
                | Inr _ \<Rightarrow> r_abortPromise rc1);
          ap' = reject (Error ''Failed to throw abort error'') ap
      in race_settle ap' (rc1\<lparr>r_abortPromise := ap'\<rparr>) st1)"

subsection \<open>AsyncLock\<close>

text \<open>
  An \<^verbatim>\<open>AsyncLockItem\<close> is named by the index of its \<^verbatim>\<open>acquire()\<close> promise, in call order,
  and carries its \<^verbatim>\<open>next\<close> field. The token of item \<open>i\<close> is \<open>i\<close>: calling its \<^verbatim>\<open>release\<close>
  is \<open>release i\<close>. \<open>granted\<close> records the order in which promises are fulfilled.
\<close>

datatype AsyncLockItem = AsyncLockItem (ident: nat) (nxt: "AsyncLockItem option")

record AsyncLock =
  active :: "AsyncLockItem option"
  promises :: "nat promise list"
  granted :: "nat list"

definition newAsyncLock :: AsyncLock where
  "newAsyncLock = \<lparr>active = None, promises = [], granted = []\<rparr>"

text \<open>\<^verbatim>\<open>item.resolve(item.token)\<close> and \<^verbatim>\<open>item.reject(err)\<close> on the promise of item \<open>i\<close>.\<close>

definition item_resolve :: "nat \<Rightarrow> AsyncLock \<Rightarrow> AsyncLock" where
  "item_resolve i l =
     (if i < length (promises l) \<and> promises l ! i = Pending
      then l\<lparr>promises := (promises l)[i := Fulfilled i], granted := granted l @ [i]\<rparr>
      else l)"

definition item_reject :: "error \<Rightarrow> nat \<Rightarrow> nat promise list \<Rightarrow> nat promise list" where
  "item_reject e i ps = (if i < length ps then ps[i := reject e (ps ! i)] else ps)"

definition activate :: "AsyncLock \<Rightarrow> AsyncLock" where
  "activate l = (case active l of None \<Rightarrow> l | Some a \<Rightarrow> item_resolve (ident a) l)"

definition acquire :: "AsyncLock \<Rightarrow> AsyncLock" where
  "acquire l =
     (let item = AsyncLockItem (length (promises l)) None;
          l1 = l\<lparr>promises := promises l @ [Pending]\<rparr>
      in case active l1 of
           Some a \<Rightarrow> l1\<lparr>active := Some (AsyncLockItem (ident a) (Some item))\<rparr>
         | None \<Rightarrow> activate (l1\<lparr>active := Some item\<rparr>))"

definition release :: "nat \<Rightarrow> AsyncLock \<Rightarrow> AsyncLock" where
  "release i l =
     (case active l of
        Some a \<Rightarrow> if ident a = i then activate (l\<lparr>active := nxt a\<rparr>) else l
      | None \<Rightarrow> l)"

text \<open>The loop of \<^verbatim>\<open>dispose\<close>, along the \<^verbatim>\<open>next\<close> fields from the active item.\<close>

fun dispose_from :: "AsyncLockItem \<Rightarrow> nat promise list \<Rightarrow> nat promise list" where
  "dispose_from (AsyncLockItem i n) ps =
     (let ps' = item_reject (Error ''AsyncLock is disposed'') i ps
      in case n of None \<Rightarrow> ps' | Some item \<Rightarrow> dispose_from item ps')"

definition dispose :: "AsyncLock \<Rightarrow> AsyncLock" where
  "dispose l =
     (case active l of
        None \<Rightarrow> l
      | Some a \<Rightarrow> l\<lparr>promises := dispose_from a (promises l)\<rparr>)"

datatype lock_call = Acquire | Release nat | Dispose

fun lock_step :: "AsyncLock \<Rightarrow> lock_call \<Rightarrow> AsyncLock" where
  "lock_step l Acquire = acquire l"
| "lock_step l (Release i) = release i l"
| "lock_step l Dispose = dispose l"

definition lock_run :: "lock_call list \<Rightarrow> AsyncLock" where
  "lock_run calls = foldl lock_step newAsyncLock calls"

subsection \<open>raceHappyEyes\<close>

text \<open>
  The function suspends only at \<^verbatim>\<open>await Promise.race([...attempts.values(), wait])\<close>.
  A run is driven by what each of these awaits yields, in order:
  \<^item> \<open>Raced res\<close>: the race is settled by \<open>res\<close>, the result of an attempt in flight or the
    \<^verbatim>\<open>timeout\<close> result of the current \<^verbatim>\<open>wait\<close>;
  \<^item> \<open>Aborted\<close>: the parent dispatches \<^verbatim>\<open>'abort'\<close> while the raced promises are pending;
    the scope's \<^verbatim>\<open>onAbort\<close> aborts the controller, the listener of \<^verbatim>\<open>delay\<close> rejects
    \<^verbatim>\<open>wait\<close> and the race rejects with the signal's reason;
  \<^item> \<open>RacedAborted res\<close>: the race is settled by \<open>res\<close>, which settled first, and the
    parent has dispatched \<^verbatim>\<open>'abort'\<close> by the time the function resumes, so the scope's
    signal is aborted from then on.
  Once the signal is aborted the current \<^verbatim>\<open>wait\<close> is rejected, and a race that no earlier
  result settles rejects at once. When the list of yields is used up and the signal is not
  aborted the function is still suspended.
  \<^verbatim>\<open>attempts\<close> is the list of keys of the map of that name, in insertion order.
  \<^verbatim>\<open>makeAttempt\<close> returns a promise for every variant, as it is typed; an attempt fails by
  the rejection of that promise.
\<close>

datatype ('v, 'r) AttemptResult = Resolve 'r | Reject 'v | Timeout

datatype ('v, 'r) awaited =
    Raced "('v, 'r) AttemptResult"
  | Aborted
  | RacedAborted "('v, 'r) AttemptResult"

text \<open>
  How a wait ended when the function goes on to the next variant: the condition
  \<^verbatim>\<open>attempts.size > 0\<close> is false, the test \<^verbatim>\<open>raced.variant === previous\<close> holds, or the
  result is \<^verbatim>\<open>timeout\<close>.
\<close>

datatype wait_end = Emptied | PreviousFailed | TimedOut

datatype ('v, 'r) loop_exit =
    Break wait_end AbortScope "'v list" "('v, 'r) awaited list"
  | Return 'r AbortScope "'v list"
  | Throw error AbortScope "'v list"
  | Suspended "'v list"

datatype 'r outcome = Returns 'r | Throws error | Awaits

record ('v, 'r) happy_run =
  outcome :: "'r outcome"
  started :: "'v list"
  inflight :: "'v list"
  scope :: AbortScope
  waits :: "wait_end list"

definition attempts_set :: "'v \<Rightarrow> 'v list \<Rightarrow> 'v list" where
  "attempts_set variant as = (if variant \<in> set as then as else as @ [variant])"

definition attempts_delete :: "'v \<Rightarrow> 'v list \<Rightarrow> 'v list" where
  "attempts_delete variant as = removeAll variant as"

text \<open>
  \<^verbatim>\<open>raced.variant === previous\<close>, with \<open>None\<close> for the \<^verbatim>\<open>undefined\<close> that \<^verbatim>\<open>previous\<close> holds
  before the first assignment. The variants are values on which \<^verbatim>\<open>===\<close> is sameness:
  none is \<^verbatim>\<open>NaN\<close> or \<^verbatim>\<open>undefined\<close>.
\<close>

definition strictEquals :: "'v \<Rightarrow> 'v option \<Rightarrow> bool" where
  "strictEquals variant previous = (Some variant = previous)"

text \<open>The scope after its \<^verbatim>\<open>onAbort\<close> has run on the parent's \<^verbatim>\<open>'abort'\<close> event.\<close>

definition parent_aborts :: "AbortScope \<Rightarrow> AbortScope" where
  "parent_aborts sc = fst (AbortScope_onAbort sc)"

fun result_of :: "('v, 'r) awaited \<Rightarrow> ('v, 'r) AttemptResult option" where
  "result_of (Raced res) = Some res"
| "result_of Aborted = None"
| "result_of (RacedAborted res) = Some res"

fun scope_at :: "('v, 'r) awaited \<Rightarrow> AbortScope \<Rightarrow> AbortScope" where
  "scope_at (Raced res) sc = sc"
| "scope_at Aborted sc = parent_aborts sc"
| "scope_at (RacedAborted res) sc = parent_aborts sc"

text \<open>The loop labelled \<^verbatim>\<open>waitForEvent\<close>; \<open>sc\<close> is the scope, whose signal \<^verbatim>\<open>delay\<close> listens to.\<close>

fun waitForEvent ::
  "AbortScope \<Rightarrow> 'v option \<Rightarrow> 'v list \<Rightarrow> ('v, 'r) awaited list \<Rightarrow> ('v, 'r) loop_exit" where
  "waitForEvent sc previous as [] =
     (if as = [] then Break Emptied sc as []
      else if aborted (signal sc) then Throw (reason (signal sc)) sc as
      else Suspended as)"
| "waitForEvent sc previous as (e # es) =
     (if as = [] then Break Emptied sc as (e # es)
      else case result_of e of
             None \<Rightarrow> Throw (reason (signal (scope_at e sc))) (scope_at e sc) as
           | Some (Resolve result) \<Rightarrow> Return result (scope_at e sc) as
           | Some (Reject variant) \<Rightarrow>
               (if strictEquals variant previous
                then Break PreviousFailed (scope_at e sc) (attempts_delete variant as) es
                else waitForEvent (scope_at e sc) previous (attempts_delete variant as) es)
           | Some Timeout \<Rightarrow> Break TimedOut (scope_at e sc) as es)"

text \<open>
  The \<^verbatim>\<open>for\<close> loop over the variants; \<open>st\<close> lists the variants given to \<^verbatim>\<open>makeAttempt\<close> so
  far and \<open>ws\<close> how the waits ended so far. \<open>None\<close> as the outcome means that the loop
  ended without \<^verbatim>\<open>return\<close> or exception.
\<close>

fun forVariants ::
  "AbortScope \<Rightarrow> 'v list \<Rightarrow> 'v option \<Rightarrow> 'v list \<Rightarrow> 'v list \<Rightarrow> wait_end list
     \<Rightarrow> ('v, 'r) awaited list
     \<Rightarrow> 'r outcome option \<times> AbortScope \<times> 'v list \<times> 'v list \<times> wait_end list" where
  "forVariants sc [] previous as st ws es = (None, sc, st, as, ws)"
| "forVariants sc (variant # variants) previous as st ws es =
     (case throwIfAborted (signal sc) of
        Inl err \<Rightarrow> (Some (Throws err), sc, st, as, ws)
      | Inr _ \<Rightarrow>
          (case waitForEvent sc previous (attempts_set variant as) es of
             Break w sc' as' es' \<Rightarrow>
               forVariants sc' variants (Some variant) as' (st @ [variant]) (ws @ [w]) es'
           | Return result sc' as' \<Rightarrow> (Some (Returns result), sc', st @ [variant], as', ws)
           | Throw err sc' as' \<Rightarrow> (Some (Throws err), sc', st @ [variant], as', ws)
           | Suspended as' \<Rightarrow> (Some Awaits, sc, st @ [variant], as', ws)))"

text \<open>
  The whole function: the scope is created from the parent signal, the loop runs, and
  unless the function is still suspended the \<^verbatim>\<open>finally\<close> block aborts the scope; after
  the loop has ended the error \<^verbatim>\<open>No variants left to attempt\<close> is thrown. The store keeps
  the listeners registered on the parent.
\<close>

definition raceHappyEyes ::
  "'v list \<Rightarrow> ref option \<Rightarrow> store \<Rightarrow> ('v, 'r) awaited list \<Rightarrow> ('v, 'r) happy_run \<times> store" where
  "raceHappyEyes variants parent store0 es =
     (let (sc, store1) = AbortScope_new parent store0;
          (res, sc1, st, as, ws) = forVariants sc variants None [] [] [] es
      in case res of
           Some Awaits \<Rightarrow>
             (\<lparr>outcome = Awaits, started = st, inflight = as, scope = sc1, waits = ws\<rparr>, store1)
         | Some out \<Rightarrow>
             (let (sc', store2, notified) = AbortScope_abort sc1 store1
              in (\<lparr>outcome = out, started = st, inflight = as, scope = sc', waits = ws\<rparr>, store2))
         | None \<Rightarrow>
             (let (sc', store2, notified) = AbortScope_abort sc1 store1
              in (\<lparr>outcome = Throws (Error ''No variants left to attempt''),
                   started = st, inflight = as, scope = sc', waits = ws\<rparr>, store2)))"


subsection \<open>KeyedObserver\<close>

text \<open>
  The map \<^verbatim>\<open>observedKeys\<close> is an association list in insertion order, as a \<^verbatim>\<open>Map\<close>
  iterates. An unsubscribe capability is a value of type \<open>'u\<close>; \<^verbatim>\<open>subscribe\<close> returns
  \<open>None\<close> for \<^verbatim>\<open>undefined\<close>. The calls made to \<^verbatim>\<open>subscribe\<close> and to the stored
  capabilities are recorded in order.
\<close>

datatype ('k, 'u) observer_call = Subscribe 'k | Unsubscribe 'k 'u

record ('k, 'u) KeyedObserver =
  subscribe :: "'k \<Rightarrow> 'u option"
  observedKeys :: "('k \<times> 'u) list"

text \<open>The \<^verbatim>\<open>for\<close> loop of \<^verbatim>\<open>observe\<close> over the keys, building \<^verbatim>\<open>newObservedKeys\<close>.\<close>

fun observe_keys ::
  "('k \<Rightarrow> 'u option) \<Rightarrow> ('k \<times> 'u) list \<Rightarrow> 'k list
     \<Rightarrow> ('k \<times> 'u) list \<times> ('k, 'u) observer_call list
     \<Rightarrow> ('k \<times> 'u) list \<times> ('k, 'u) observer_call list" where
  "observe_keys sub old [] acc = acc"
| "observe_keys sub old (key # keys) (new, calls) =
     (if map_of new key \<noteq> None then observe_keys sub old keys (new, calls)
      else case map_of old key of
             Some u \<Rightarrow> observe_keys sub old keys (AList.update key u new, calls)
           | None \<Rightarrow>
               (case sub key of
                  Some u \<Rightarrow>
                    observe_keys sub old keys (AList.update key u new, calls @ [Subscribe key])
                | None \<Rightarrow> observe_keys sub old keys (new, calls @ [Subscribe key])))"

text \<open>The \<^verbatim>\<open>forEach\<close> over the old map: the calls of the capabilities of dropped keys.\<close>

fun forEach_old :: "('k \<times> 'u) list \<Rightarrow> ('k \<times> 'u) list \<Rightarrow> ('k, 'u) observer_call list" where
  "forEach_old new [] = []"
| "forEach_old new ((key, u) # old) =
     (if map_of new key = None then Unsubscribe key u # forEach_old new old
      else forEach_old new old)"

definition observe ::
  "'k list \<Rightarrow> ('k, 'u) KeyedObserver \<Rightarrow> ('k, 'u) KeyedObserver \<times> ('k, 'u) observer_call list" where
  "observe keys ob =
     (if length keys = 0 \<and> length (observedKeys ob) = 0 then (ob, [])
      else let (new, calls) = observe_keys (subscribe ob) (observedKeys ob) keys ([], [])
           in (ob\<lparr>observedKeys := new\<rparr>, calls @ forEach_old new (observedKeys ob)))"

definition stopListening ::
  "('k, 'u) KeyedObserver \<Rightarrow> ('k, 'u) KeyedObserver \<times> ('k, 'u) observer_call list" where
  "stopListening ob = observe [] ob"

text \<open>
  Reading the record of calls: the capabilities invoked for a key, in order. The number
  of \<^verbatim>\<open>subscribe\<close> calls for a key \<open>k\<close> is \<open>count_list calls (Subscribe k)\<close>.
\<close>

fun unsubscribed :: "'k \<Rightarrow> ('k, 'u) observer_call list \<Rightarrow> 'u list" where
  "unsubscribed k [] = []"
| "unsubscribed k (Subscribe k' # calls) = unsubscribed k calls"
| "unsubscribed k (Unsubscribe k' u # calls) =
     (if k' = k then u # unsubscribed k calls else unsubscribed k calls)"

text \<open>A \<^verbatim>\<open>subscribe\<close> function that finds the keys k1, k2 and k3 and no other.\<close>

definition subscribe3 :: "string \<Rightarrow> nat option" where
  "subscribe3 k = (if k = ''k1'' then Some 1 else if k = ''k2'' then Some 2
                   else if k = ''k3'' then Some 3 else None)"

section \<open>Properties\<close>

subsection \<open>AsyncLock\<close>

text \<open>
  C1. Requests made while a holder is active are to be granted in the order of their
  \<^verbatim>\<open>acquire()\<close> calls. \<^verbatim>\<open>acquire\<close> stores the new item in the \<^verbatim>\<open>next\<close> field of the
  active item, whatever that field holds. With item 0 holding the lock and items 1
  and 2 requested in this order, the release of item 0 grants item 2; item 1 is not
  granted then, nor after item 2 has been released, when the lock is free again.
\<close>

theorem AsyncLock_second_request_replaces_first:
  "granted (lock_run [Acquire, Acquire, Acquire]) = [0] \<and>
   active (lock_run [Acquire, Acquire, Acquire]) = Some (AsyncLockItem 0 (Some (AsyncLockItem 2 None))) \<and>
   granted (lock_run [Acquire, Acquire, Acquire, Release 0]) = [0, 2] \<and>
   promises (lock_run [Acquire, Acquire, Acquire, Release 0]) = [Fulfilled 0, Pending, Fulfilled 2] \<and>
   active (lock_run [Acquire, Acquire, Acquire, Release 0, Release 2]) = None \<and>
   promises (lock_run [Acquire, Acquire, Acquire, Release 0, Release 2])
     = [Fulfilled 0, Pending, Fulfilled 2]"
  by (simp add: lock_run_def newAsyncLock_def acquire_def release_def activate_def
      item_resolve_def)

text \<open>
  C8. \<^verbatim>\<open>dispose()\<close> is to reject every request that is queued and not granted, and in
  particular both of two queued requests. With item 0 holding the lock and items 1 and 2
  queued, \<^verbatim>\<open>dispose\<close> rejects item 2 only: item 1 is no longer reachable from the active
  item and its promise stays pending. The granted promise of item 0 is unchanged.
\<close>

theorem AsyncLock_dispose_misses_first_request:
  "promises (lock_run [Acquire, Acquire, Acquire]) = [Fulfilled 0, Pending, Pending] \<and>
   promises (lock_run [Acquire, Acquire, Acquire, Dispose])
     = [Fulfilled 0, Pending, Rejected (Error ''AsyncLock is disposed'')]"
  by (simp add: lock_run_def newAsyncLock_def acquire_def dispose_def activate_def
      item_resolve_def item_reject_def reject_def)

subsection \<open>AbortScope\<close>

text \<open>
  C4. A scope constructed with a parent signal that is aborted already is to have an
  aborted signal at once. The constructor registers a listener on the parent and does not
  look at the parent's state: with an aborted parent at reference 0 the signal of the new
  scope is not aborted.
\<close>

theorem AbortScope_new_aborted_parent:
  "aborted (store_of \<lparr>aborted = True, reason = AbortError, listeners = []\<rparr> 0) \<and>
   aborted (signal (fst (AbortScope_new (Some 0)
      (store_of \<lparr>aborted = True, reason = AbortError, listeners = []\<rparr>)))) = False"
  by (simp add: AbortScope_new_def signal_def newAbortController_def store_of_def Let_def)

text \<open>
  C5. Aborting or disposing a scope is to remove from the parent signal the listener
  that the constructor registered. The constructor leaves the field \<^verbatim>\<open>parentSignal\<close>
  undefined, so \<^verbatim>\<open>[Symbol.dispose]\<close> removes nothing: with a parent at reference 0 that
  has no listener, the scope's listener is registered by the constructor and is still
  registered on the parent after \<^verbatim>\<open>abort()\<close>.
\<close>

theorem AbortScope_abort_keeps_parent_listener:
  "(let (sc, st1) = AbortScope_new (Some 0)
                      (store_of \<lparr>aborted = False, reason = AbortError, listeners = []\<rparr>);
        (sc', st2, notified) = AbortScope_abort sc st1
    in parentSignal sc = None \<and> onAbort sc = Some 1 \<and> listeners (st1 0) = [1] \<and>
       aborted (signal sc') \<and> listeners (st2 0) = [1])"
  by (simp add: AbortScope_new_def AbortScope_abort_def AbortScope_dispose_def signal_def
      newAbortController_def AbortController_abort_def addEventListener_def newListener_def store_of_def Let_def)

subsection \<open>delay\<close>

text \<open>
  C6. A call of \<^verbatim>\<open>delay\<close> with a signal that is aborted already is to reject at once with
  the signal's reason and to schedule no timer. The promise is rejected with the reason,
  but the timer was set before the signal is looked at and is not cleared: after the call
  the timer of 100 ms is pending, and the listener is registered on the aborted signal.
\<close>

theorem delay_aborted_signal_leaves_timer:
  "(let (d, w) = delay 100 (Some 0)
                   \<lparr>signals = store_of \<lparr>aborted = True, reason = Error ''stop'', listeners = []\<rparr>,
                    timers = []\<rparr>
    in d_promise d = Rejected (Error ''stop'') \<and> timers w = [(d_timeoutId d, 100)] \<and>
       d_onAbort d = Some 1 \<and> listeners (signals w 0) = [1])"
  by (simp add: delay_def setTimeout_def throwIfAborted_def reject_def addEventListener_def newListener_def store_of_def Let_def)

subsection \<open>raceAbortSignal\<close>

text \<open>
  C7. Once the given promise settles or the signal aborts, the listener that
  \<^verbatim>\<open>raceAbortSignal\<close> registered is to be removed. \<^verbatim>\<open>cleanup\<close> runs in the fulfilment
  handler and in \<^verbatim>\<open>onAbort\<close> only: when the given promise rejects first, the result
  rejects with its reason and the listener stays registered on the signal.
\<close>

theorem raceAbortSignal_rejection_keeps_listener:
  "(case raceAbortSignal (Some 0)
           (store_of \<lparr>aborted = False, reason = AbortError, listeners = []\<rparr>) of
      (None, st1) \<Rightarrow> False
    | (Some rc, st1) \<Rightarrow>
        (let (rc', st2) = race_onPromise (Rejected (Error ''boom'') :: nat promise) rc st1
         in listeners (st1 0) = [1] \<and> r_result rc' = Rejected (Error ''boom'') \<and>
            r_cleanup rc' = Some 1 \<and> listeners (st2 0) = [1]))"
  by (simp add: raceAbortSignal_def race_onPromise_def race_settle_def addEventListener_def newListener_def store_of_def Let_def)

subsection \<open>raceHappyEyes\<close>

text \<open>
  C2. After candidate \<open>i\<close> has been started, candidate \<open>i+1\<close> is to be started only once
  the stagger timeout has elapsed or candidate \<open>i\<close> has failed, and at once when
  candidate \<open>i\<close> fails before the timeout. \<^verbatim>\<open>previous\<close> is assigned after the wait loop,
  so during the wait that follows the start of candidate \<open>i\<close> it names candidate \<open>i-1\<close>.
  With candidates A, B, C and B started on A's timeout: when A then fails, C is started
  although B has neither failed nor timed out; when B fails instead, C is not started
  and the function goes on waiting.
\<close>

theorem raceHappyEyes_previous_is_stale:
  "(let r1 = fst (raceHappyEyes [''A'', ''B'', ''C''] None (store_of newAbortController)
                    [Raced Timeout, Raced (Reject ''A'')] :: (string, nat) happy_run \<times> store);
        r2 = fst (raceHappyEyes [''A'', ''B'', ''C''] None (store_of newAbortController)
                    [Raced Timeout, Raced (Reject ''B'')] :: (string, nat) happy_run \<times> store)
    in started r1 = [''A'', ''B'', ''C''] \<and> inflight r1 = [''B'', ''C''] \<and> outcome r1 = Awaits \<and>
       started r2 = [''A'', ''B''] \<and> inflight r2 = [''A''] \<and> outcome r2 = Awaits)"
  by (simp add: raceHappyEyes_def throwIfAborted_def attempts_set_def attempts_delete_def
      AbortScope_new_def AbortScope_abort_def AbortScope_dispose_def signal_def
      newAbortController_def AbortController_abort_def addEventListener_def newListener_def store_of_def
      strictEquals_def Let_def)









lemma raceHappyEyes_no_yield:
  "vs \<noteq> [] \<Longrightarrow> outcome (fst (raceHappyEyes vs parent store0 [])) = Awaits"
  by (cases vs)
    (auto simp: raceHappyEyes_def throwIfAborted_def attempts_set_def AbortScope_new_def
      signal_def newAbortController_def Let_def split: option.splits)




subsection \<open>KeyedObserver\<close>

lemma unsubscribed_append:
  "unsubscribed k (xs @ ys) = unsubscribed k xs @ unsubscribed k ys"
  by (induction k xs rule: unsubscribed.induct) auto

lemma count_list_snoc:
  "count_list (xs @ [y]) x = count_list xs x + (if x = y then 1 else 0)"
  by (induction xs) auto

lemma observe_keys_unsubscribed:
  "unsubscribed k (snd (observe_keys sub old ks (new, calls))) = unsubscribed k calls"
  by (induction ks arbitrary: new calls) (auto simp: unsubscribed_append split: option.splits)

lemma observe_keys_distinct:
  "distinct (map fst new) \<Longrightarrow> distinct (map fst (fst (observe_keys sub old ks (new, calls))))"
  by (induction ks arbitrary: new calls) (auto simp: distinct_update split: option.splits)

lemma observe_keys_map_of:
  "map_of (fst (observe_keys sub old ks (new, calls))) k =
     (case map_of new k of
        Some u \<Rightarrow> Some u
      | None \<Rightarrow>
          if k \<in> set ks then (case map_of old k of Some u \<Rightarrow> Some u | None \<Rightarrow> sub k)
          else None)"
proof (induction ks arbitrary: new calls)
  case Nil
  then show ?case by (simp split: option.splits)
next
  case (Cons key ks)
  show ?case
    by (cases "map_of new key"; cases "map_of old key"; cases "sub key")
       (auto simp: Cons.IH update_conv' split: option.splits)
qed

lemma observe_keys_subscribes:
  "count_list (snd (observe_keys sub old ks (new, calls))) (Subscribe k) =
     count_list calls (Subscribe k) +
     (if map_of new k \<noteq> None \<or> map_of old k \<noteq> None then 0
      else case sub k of
             None \<Rightarrow> count_list ks k
           | Some u \<Rightarrow> if k \<in> set ks then 1 else 0)"
proof (induction ks arbitrary: new calls)
  case Nil
  then show ?case by (simp split: option.splits)
next
  case (Cons key ks)
  show ?case
    by (cases "map_of new key"; cases "map_of old key"; cases "sub key")
       (auto simp: Cons.IH update_conv' count_list_snoc split: option.splits)
qed

lemma forEach_old_subscribes: "count_list (forEach_old new old) (Subscribe k) = 0"
  by (induction new old rule: forEach_old.induct) auto

lemma forEach_old_unsubscribed:
  "distinct (map fst old) \<Longrightarrow>
   unsubscribed k (forEach_old new old) =
     (case map_of old k of
        Some u \<Rightarrow> if map_of new k = None then [u] else []
      | None \<Rightarrow> [])"
proof (induction new old rule: forEach_old.induct)
  case (1 new)
  then show ?case by simp
next
  case (2 new key u old)
  have d: "distinct (map fst old)" and nk: "map_of old key = None"
    using "2.prems" by (auto simp: map_of_eq_None_iff)
  have ih: "unsubscribed k (forEach_old new old) =
     (case map_of old k of
        Some u \<Rightarrow> if map_of new k = None then [u] else []
      | None \<Rightarrow> [])"
    using "2.IH" d by (cases "map_of new key = None") auto
  show ?case using ih nk by (auto split: option.splits)
qed

lemma observe_distinct: "distinct (map fst (observedKeys (fst (observe ks ob))))"
proof (cases "length ks = 0 \<and> length (observedKeys ob) = 0")
  case True
  then show ?thesis by (simp add: observe_def)
next
  case False
  have "distinct (map fst (fst (observe_keys (subscribe ob) (observedKeys ob) ks ([], []))))"
    by (rule observe_keys_distinct) simp
  with False show ?thesis by (simp add: observe_def case_prod_beta)
qed

lemma observe_calls:
  assumes "distinct (map fst (observedKeys ob))"
  shows "count_list (snd (observe ks ob)) (Subscribe k) =
           (if k \<in> set ks \<and> map_of (observedKeys ob) k = None
            then (case subscribe ob k of None \<Rightarrow> count_list ks k | Some u \<Rightarrow> 1)
            else 0)"
    and "unsubscribed k (snd (observe ks ob)) =
           (case map_of (observedKeys ob) k of
              Some u \<Rightarrow> if k \<in> set ks then [] else [u]
            | None \<Rightarrow> [])"
proof -
  obtain new calls where
    ok: "observe_keys (subscribe ob) (observedKeys ob) ks ([], []) = (new, calls)"
    by (cases "observe_keys (subscribe ob) (observedKeys ob) ks ([], [])")
  have m: "map_of new k =
     (if k \<in> set ks
      then (case map_of (observedKeys ob) k of Some u \<Rightarrow> Some u | None \<Rightarrow> subscribe ob k)
      else None)"
    using observe_keys_map_of[of "subscribe ob" "observedKeys ob" ks "[]" "[]" k] ok by simp
  have c: "count_list calls (Subscribe k) =
     (if map_of (observedKeys ob) k \<noteq> None then 0
      else case subscribe ob k of
             None \<Rightarrow> count_list ks k
           | Some u \<Rightarrow> if k \<in> set ks then 1 else 0)"
    using observe_keys_subscribes[of "subscribe ob" "observedKeys ob" ks "[]" "[]" k] ok by simp
  have u: "unsubscribed k calls = []"
    using observe_keys_unsubscribed[of k "subscribe ob" "observedKeys ob" ks "[]" "[]"] ok by simp
  show "count_list (snd (observe ks ob)) (Subscribe k) =
           (if k \<in> set ks \<and> map_of (observedKeys ob) k = None
            then (case subscribe ob k of None \<Rightarrow> count_list ks k | Some u \<Rightarrow> 1)
            else 0)"
  proof (cases "length ks = 0 \<and> length (observedKeys ob) = 0")
    case True
    then show ?thesis by (simp add: observe_def)
  next
    case False
    then show ?thesis using ok c
      by (auto simp: observe_def forEach_old_subscribes split: option.splits)
  qed
  show "unsubscribed k (snd (observe ks ob)) =
           (case map_of (observedKeys ob) k of
              Some u \<Rightarrow> if k \<in> set ks then [] else [u]
            | None \<Rightarrow> [])"
  proof (cases "length ks = 0 \<and> length (observedKeys ob) = 0")
    case True
    then show ?thesis by (simp add: observe_def)
  next
    case False
    then show ?thesis using ok u m forEach_old_unsubscribed[OF assms, of k new]
      by (auto simp: observe_def unsubscribed_append split: option.splits)
  qed
qed

lemma observe_tracked:
  "map_of (observedKeys (fst (observe ks ob))) k =
     (if k \<in> set ks
      then (case map_of (observedKeys ob) k of Some u \<Rightarrow> Some u | None \<Rightarrow> subscribe ob k)
      else None)"
proof (cases "length ks = 0 \<and> length (observedKeys ob) = 0")
  case True
  then show ?thesis by (simp add: observe_def)
next
  case False
  then show ?thesis
    using observe_keys_map_of[of "subscribe ob" "observedKeys ob" ks "[]" "[]" k]
    by (simp add: observe_def case_prod_beta)
qed

text \<open>
  C9, as amended. After a call \<^verbatim>\<open>observe(ks)\<close> a key is tracked exactly when it occurs in
  \<open>ks\<close> and either was tracked before, with the capability stored then, or \<^verbatim>\<open>subscribe\<close>
  returns a capability for it, which is stored. In the second of two consecutive calls
  \<^verbatim>\<open>observe(ks1)\<close>, \<^verbatim>\<open>observe(ks2)\<close>, \<^verbatim>\<open>subscribe\<close> is called for a key of \<open>ks2\<close> that is not
  tracked after the first call: once when \<^verbatim>\<open>subscribe\<close> returns a capability for it, and
  once for each occurrence of the key in \<open>ks2\<close> when \<^verbatim>\<open>subscribe\<close> returns nothing, since
  such a key is not entered in the new map. It is not called for any other key. The stored
  capability of a key tracked after the first call is invoked once when the key is absent
  from \<open>ks2\<close> and not at all when it is present; no other capability is invoked.
\<close>

theorem observe_twice:
  "map_of (observedKeys (fst (observe ks1 ob))) k =
     (if k \<in> set ks1
      then (case map_of (observedKeys ob) k of Some u \<Rightarrow> Some u | None \<Rightarrow> subscribe ob k)
      else None) \<and>
   count_list (snd (observe ks2 (fst (observe ks1 ob)))) (Subscribe k) =
     (if k \<in> set ks2 \<and> map_of (observedKeys (fst (observe ks1 ob))) k = None
      then (case subscribe ob k of None \<Rightarrow> count_list ks2 k | Some u \<Rightarrow> 1)
      else 0) \<and>
   unsubscribed k (snd (observe ks2 (fst (observe ks1 ob)))) =
     (case map_of (observedKeys (fst (observe ks1 ob))) k of
        Some u \<Rightarrow> if k \<in> set ks2 then [] else [u]
      | None \<Rightarrow> []) \<and>
   map_of (observedKeys (fst (observe ks2 (fst (observe ks1 ob))))) k =
     (if k \<in> set ks2
      then (case map_of (observedKeys (fst (observe ks1 ob))) k of
              Some u \<Rightarrow> Some u
            | None \<Rightarrow> subscribe ob k)
      else None)"
proof -
  have s: "subscribe (fst (observe ks1 ob)) = subscribe ob"
    by (simp add: observe_def case_prod_beta)
  note c1 = observe_calls(1)[OF observe_distinct[of ks1 ob], where ks = ks2 and k = k, unfolded s]
  note c2 = observe_calls(2)[OF observe_distinct[of ks1 ob], where ks = ks2 and k = k]
  note t1 = observe_tracked[of ks1 ob k]
  note t2 = observe_tracked[of ks2 "fst (observe ks1 ob)" k, unfolded s]
  show ?thesis by (rule conjI[OF t1 conjI[OF c1 conjI[OF c2 t2]]])
qed

text \<open>
  The example of the claim, from the theorem: with \<^verbatim>\<open>subscribe\<close> finding the three keys,
  \<^verbatim>\<open>observe([k1, k2])\<close> then \<^verbatim>\<open>observe([k2, k3])\<close> makes one \<^verbatim>\<open>subscribe\<close> call for k3, none
  for k1 and k2, one call of the capability stored for k1, and none of another.
\<close>

theorem observe_twice_example:
  "count_list (snd (observe [''k2'', ''k3'']
      (fst (observe [''k1'', ''k2''] \<lparr>subscribe = subscribe3, observedKeys = []\<rparr>)))) (Subscribe ''k3'') = 1 \<and>
   count_list (snd (observe [''k2'', ''k3'']
      (fst (observe [''k1'', ''k2''] \<lparr>subscribe = subscribe3, observedKeys = []\<rparr>)))) (Subscribe ''k2'') = 0 \<and>
   count_list (snd (observe [''k2'', ''k3'']
      (fst (observe [''k1'', ''k2''] \<lparr>subscribe = subscribe3, observedKeys = []\<rparr>)))) (Subscribe ''k1'') = 0 \<and>
   unsubscribed ''k1'' (snd (observe [''k2'', ''k3'']
      (fst (observe [''k1'', ''k2''] \<lparr>subscribe = subscribe3, observedKeys = []\<rparr>)))) = [1] \<and>
   unsubscribed ''k2'' (snd (observe [''k2'', ''k3'']
      (fst (observe [''k1'', ''k2''] \<lparr>subscribe = subscribe3, observedKeys = []\<rparr>)))) = [] \<and>
   unsubscribed ''k3'' (snd (observe [''k2'', ''k3'']
      (fst (observe [''k1'', ''k2''] \<lparr>subscribe = subscribe3, observedKeys = []\<rparr>)))) = []"
  using observe_twice[of "[''k1'', ''k2'']" "\<lparr>subscribe = subscribe3, observedKeys = []\<rparr>" "''k1''" "[''k2'', ''k3'']"]
    observe_twice[of "[''k1'', ''k2'']" "\<lparr>subscribe = subscribe3, observedKeys = []\<rparr>" "''k2''" "[''k2'', ''k3'']"]
    observe_twice[of "[''k1'', ''k2'']" "\<lparr>subscribe = subscribe3, observedKeys = []\<rparr>" "''k3''" "[''k2'', ''k3'']"]
  by (simp add: subscribe3_def)

text \<open>The same run, evaluated: the calls of both \<^verbatim>\<open>observe\<close> and the maps they store.\<close>

lemma observe_example_calls:
  "snd (observe [''k1'', ''k2''] \<lparr>subscribe = subscribe3, observedKeys = []\<rparr>)
     = [Subscribe ''k1'', Subscribe ''k2''] \<and>
   observedKeys (fst (observe [''k1'', ''k2''] \<lparr>subscribe = subscribe3, observedKeys = []\<rparr>))
     = [(''k1'', 1), (''k2'', 2)] \<and>
   snd (observe [''k2'', ''k3'']
      (fst (observe [''k1'', ''k2''] \<lparr>subscribe = subscribe3, observedKeys = []\<rparr>)))
     = [Subscribe ''k3'', Unsubscribe ''k1'' 1] \<and>
   observedKeys (fst (observe [''k2'', ''k3'']
      (fst (observe [''k1'', ''k2''] \<lparr>subscribe = subscribe3, observedKeys = []\<rparr>))))
     = [(''k2'', 2), (''k3'', 3)]"
  by (simp add: observe_def subscribe3_def)

text \<open>
  C9 as stated fails: on a fresh observer whose \<^verbatim>\<open>subscribe\<close> returns nothing,
  \<^verbatim>\<open>observe([])\<close> then \<^verbatim>\<open>observe([k, k])\<close> calls \<^verbatim>\<open>subscribe\<close> twice for the one distinct
  key \<open>k\<close>, which is not tracked after the first call.
\<close>

theorem observe_duplicates_counterexample:
  "map_of (observedKeys (fst (observe []
       \<lparr>subscribe = (\<lambda>k. None :: nat option), observedKeys = []\<rparr>))) ''k'' = None \<and>
   \<not> (count_list (snd (observe [''k'', ''k'']
          (fst (observe [] \<lparr>subscribe = (\<lambda>k. None :: nat option), observedKeys = []\<rparr>))))
        (Subscribe ''k'') = 1)"
  by (simp add: observe_def)

subsection \<open>mapAbortedToNull\<close>

text \<open>
  C10. When the promise settles, fulfilled or rejected, while the signal is defined and
  aborted, \<^verbatim>\<open>mapAbortedToNull\<close> resolves with \<^verbatim>\<open>null\<close>, so a rejection is swallowed.
  When the signal is undefined or not aborted, it resolves with the promise's value or
  rejects with the promise's rejection reason.
\<close>

theorem mapAbortedToNull_spec:
  "(\<forall>s. sg = Some s \<and> aborted s \<longrightarrow>
      mapAbortedToNull (Fulfilled (v::'a)) sg = Fulfilled None \<and>
      mapAbortedToNull (Rejected e) sg = (Fulfilled None :: 'a option promise)) \<and>
   ((sg = None \<or> (\<exists>s. sg = Some s \<and> \<not> aborted s)) \<longrightarrow>
      mapAbortedToNull (Fulfilled v) sg = Fulfilled (Some v) \<and>
      mapAbortedToNull (Rejected e) sg = (Rejected e :: 'a option promise))"
  by (auto simp: mapAbortedToNull_def then2_def onResolve_def onReject_def)

theorem mapAbortedToNull_spec_witness:
  "mapAbortedToNull (Fulfilled (7::nat)) (Some \<lparr>aborted = True, reason = AbortError, listeners = []\<rparr>)
     = Fulfilled None \<and>
   mapAbortedToNull (Rejected (Error ''boom''))
       (Some \<lparr>aborted = True, reason = AbortError, listeners = []\<rparr>)
     = (Fulfilled None :: nat option promise) \<and>
   mapAbortedToNull (Fulfilled (7::nat)) None = Fulfilled (Some 7) \<and>
   mapAbortedToNull (Rejected (Error ''boom''))
       (Some \<lparr>aborted = False, reason = AbortError, listeners = []\<rparr>)
     = (Rejected (Error ''boom'') :: nat option promise)"
  using mapAbortedToNull_spec [of "Some \<lparr>aborted = True, reason = AbortError, listeners = []\<rparr>"
      "7::nat" "Error ''boom''"]
    mapAbortedToNull_spec [of None "7::nat" "Error ''boom''"]
    mapAbortedToNull_spec [of "Some \<lparr>aborted = False, reason = AbortError, listeners = []\<rparr>"
      "7::nat" "Error ''boom''"]
  by simp

end
